theory Spec2Isabelle
  imports Complex_Main
begin

section \<open>JavaScript values read and computed by ClusterHUD\<close>

text \<open>
  A JavaScript number is an IEEE 754 binary64 value. \<open>Fin x\<close> is the finite double of
  value \<open>x\<close> (\<open>Fin 0\<close> is +0), \<open>NegZero\<close> is -0, and the three non-finite doubles are
  kept apart, because the component divides by values that may be zero and HOL's own
  division returns 0 there. The operations round their exact result to the nearest
  double, ties to even, as the processor does.
\<close>

datatype jsnum = Fin rat | NegZero | PosInf | NegInf | NaN

text \<open>The number of binary digits of a positive integer.\<close>

function bits :: "int \<Rightarrow> int" where
  "bits n = (if n \<le> 0 then 0 else 1 + bits (n div 2))"
  by pat_completeness auto
termination
  by (relation "measure nat") auto

declare bits.simps [simp del]

definition pow2 :: "int \<Rightarrow> rat" where
  "pow2 k = (if 0 \<le> k then 2 ^ nat k else 1 / 2 ^ nat (- k))"

text \<open>For a positive \<open>a\<close>, the exponent \<open>e\<close> with \<open>pow2 e \<le> a < pow2 (e + 1)\<close>.\<close>

definition ilog2 :: "rat \<Rightarrow> int" where
  "ilog2 a =
     (let (n, d) = quotient_of a;
          k = bits n - bits d
      in if pow2 k \<le> a then k else k - 1)"

definition round_half_even :: "rat \<Rightarrow> int" where
  "round_half_even r =
     (let f = \<lfloor>r\<rfloor>; d = r - of_int f
      in if d < 1 / 2 then f else if 1 / 2 < d then f + 1 else if even f then f else f + 1)"

definition signed_zero :: "bool \<Rightarrow> jsnum" where
  "signed_zero negative = (if negative then NegZero else Fin 0)"

definition inf_signed :: "bool \<Rightarrow> jsnum" where
  "inf_signed negative = (if negative then NegInf else PosInf)"

text \<open>
  Rounding an exact result to binary64: 53 significant bits, exponents from -1022
  (below that the spacing stays \<open>pow2 (- 1074)\<close>: subnormal numbers and underflow to a
  signed zero) up to 1023 (beyond that an infinity).
\<close>

definition fl :: "rat \<Rightarrow> jsnum" where
  "fl x =
     (if x = 0 then Fin 0
      else
        let a = \<bar>x\<bar>;
            e = max (ilog2 a) (- 1022);
            q = pow2 (e - 52);
            m = round_half_even (a / q);
            y = of_int m * q
        in if m = 0 then signed_zero (x < 0)
           else if pow2 1024 \<le> y then inf_signed (x < 0)
           else Fin (if x < 0 then - y else y))"

fun sign_bit :: "jsnum \<Rightarrow> bool" where
  "sign_bit (Fin x) = (x < 0)"
| "sign_bit NegZero = True"
| "sign_bit PosInf = False"
| "sign_bit NegInf = True"
| "sign_bit NaN = False"

fun is_zero :: "jsnum \<Rightarrow> bool" where
  "is_zero (Fin x) = (x = 0)"
| "is_zero NegZero = True"
| "is_zero a = False"

fun is_inf :: "jsnum \<Rightarrow> bool" where
  "is_inf PosInf = True"
| "is_inf NegInf = True"
| "is_inf a = False"

fun magnitude :: "jsnum \<Rightarrow> rat" where
  "magnitude (Fin x) = \<bar>x\<bar>"
| "magnitude a = 0"

fun js_neg :: "jsnum \<Rightarrow> jsnum" where
  "js_neg (Fin x) = (if x = 0 then NegZero else Fin (- x))"
| "js_neg NegZero = Fin 0"
| "js_neg PosInf = NegInf"
| "js_neg NegInf = PosInf"
| "js_neg NaN = NaN"

text \<open>
  Addition: opposite infinities give NaN; -0 is the neutral element, so that
  \<open>-0 + -0 = -0\<close> and every other sum of zeros, like every exact sum 0, is +0.
\<close>

fun js_add :: "jsnum \<Rightarrow> jsnum \<Rightarrow> jsnum" where
  "js_add NaN b = NaN"
| "js_add a NaN = NaN"
| "js_add PosInf NegInf = NaN"
| "js_add NegInf PosInf = NaN"
| "js_add PosInf b = PosInf"
| "js_add NegInf b = NegInf"
| "js_add a PosInf = PosInf"
| "js_add a NegInf = NegInf"
| "js_add NegZero b = b"
| "js_add a NegZero = a"
| "js_add (Fin x) (Fin y) = fl (x + y)"

definition js_sub :: "jsnum \<Rightarrow> jsnum \<Rightarrow> jsnum" where
  "js_sub a b = js_add a (js_neg b)"

text \<open>
  Multiplication and division: the sign of the result is the exclusive or of the signs
  of the operands; an infinity times a zero, an infinity over an infinity and a zero
  over a zero are NaN. Division never raises: a non-zero number over a zero is an
  infinity.
\<close>

definition js_mul :: "jsnum \<Rightarrow> jsnum \<Rightarrow> jsnum" where
  "js_mul a b =
     (if a = NaN \<or> b = NaN then NaN
      else if is_inf a \<or> is_inf b
        then (if is_zero a \<or> is_zero b then NaN else inf_signed (sign_bit a \<noteq> sign_bit b))
      else if is_zero a \<or> is_zero b then signed_zero (sign_bit a \<noteq> sign_bit b)
      else fl ((if sign_bit a \<noteq> sign_bit b then - 1 else 1) * (magnitude a * magnitude b)))"

definition js_div :: "jsnum \<Rightarrow> jsnum \<Rightarrow> jsnum" where
  "js_div a b =
     (if a = NaN \<or> b = NaN then NaN
      else if is_inf a then (if is_inf b then NaN else inf_signed (sign_bit a \<noteq> sign_bit b))
      else if is_inf b then signed_zero (sign_bit a \<noteq> sign_bit b)
      else if is_zero b then (if is_zero a then NaN else inf_signed (sign_bit a \<noteq> sign_bit b))
      else if is_zero a then signed_zero (sign_bit a \<noteq> sign_bit b)
      else fl ((if sign_bit a \<noteq> sign_bit b then - 1 else 1) * (magnitude a / magnitude b)))"

text \<open>
  The values a state variable, a series sample or a property of the fetched JSON
  document can hold here: a number, \<open>undefined\<close> (a property the document does not
  have) or \<open>null\<close> (the initial value of the \<open>last...\<close> state variables).
\<close>

datatype jsval = Number jsnum | Undefined | Null

text \<open>The coercion JavaScript applies to the operands of \<open>-\<close>, \<open>*\<close> and \<open>/\<close>.\<close>

fun ToNumber :: "jsval \<Rightarrow> jsnum" where
  "ToNumber (Number n) = n"
| "ToNumber Undefined = NaN"
| "ToNumber Null = Fin 0"


text \<open>
  The fetched document \<open>clusterState\<close>: a JSON object, from property names to values.
  Reading a property the object does not have gives \<open>undefined\<close>.
\<close>

type_synonym clusterState = "string \<rightharpoonup> jsval"

definition get_prop :: "clusterState \<Rightarrow> string \<Rightarrow> jsval" where
  "get_prop clusterState name = (case clusterState name of None \<Rightarrow> Undefined | Some v \<Rightarrow> v)"

section \<open>The history helpers imported from \<open>../utils\<close>\<close>

text \<open>
  \<open>addToHistory\<close> and \<open>addExponentiallyWeightedToHistory\<close> are imported by
  ClusterHUD.jsx from \<open>../utils\<close>; that module is not among the sources. The capacity
  \<open>maxLength\<close> and the weight \<open>alpha\<close> are constants of that module and are taken as
  parameters.
\<close>

definition trim :: "nat \<Rightarrow> 'a list \<Rightarrow> 'a list" where
  \<comment> \<open>Modelled from the spec: the trimming step of the helpers in \<open>../utils\<close>:
      "trimmed to the most recent maxLength samples (oldest dropped first)".\<close>
  "trim maxLength ys = drop (length ys - maxLength) ys"

definition addToHistory :: "nat \<Rightarrow> jsval \<Rightarrow> jsval list \<Rightarrow> jsval list" where
  \<comment> \<open>Modelled from the spec: \<open>addToHistory(value, valuesArray)\<close> of \<open>../utils\<close>, Raw mode:
      "new series = previous series with rawValue appended, then trimmed to the most
      recent maxLength samples"; the argument is not mutated.\<close>
  "addToHistory maxLength v valuesArray = trim maxLength (valuesArray @ [v])"

definition addExponentiallyWeightedToHistory ::
  "nat \<Rightarrow> rat \<Rightarrow> jsval \<Rightarrow> jsval list \<Rightarrow> jsval list" where
  \<comment> \<open>Modelled from the spec: \<open>addExponentiallyWeightedToHistory(value, valuesArray)\<close> of
      \<open>../utils\<close>: "if the series is empty, the appended sample equals rawValue.
      Otherwise the appended sample is alpha * rawValue + (1 - alpha) * lastSample ...
      Result is then trimmed to maxLength as above."\<close>
  "addExponentiallyWeightedToHistory maxLength alpha v valuesArray =
     (if valuesArray = [] then trim maxLength (valuesArray @ [v])
      else trim maxLength (valuesArray @
             [Number (js_add (js_mul (Fin alpha) (ToNumber v))
                             (js_mul (js_sub (Fin 1) (Fin alpha))
                                     (ToNumber (last valuesArray))))]))"


section \<open>The component state\<close>

text \<open>
  The \<open>useState\<close> variables of ClusterHUD: nine series, two timestamps
  (\<open>Date.now()\<close> in milliseconds, \<open>None\<close> for \<open>null\<close>) and the three counters of the
  previous poll.
\<close>

record hud_state =
  runningQueries :: "jsval list"
  queuedQueries :: "jsval list"
  blockedQueries :: "jsval list"
  activeWorkers :: "jsval list"
  runningDrivers :: "jsval list"
  reservedMemory :: "jsval list"
  rowInputRate :: "jsval list"
  byteInputRate :: "jsval list"
  perWorkerCpuTimeRate :: "jsval list"
  lastRender :: "int option"
  lastRefresh :: "int option"
  lastInputRows :: jsval
  lastInputBytes :: jsval
  lastCpuTime :: jsval

definition initial_state :: hud_state where
  "initial_state =
     \<lparr>runningQueries = [], queuedQueries = [], blockedQueries = [], activeWorkers = [],
      runningDrivers = [], reservedMemory = [], rowInputRate = [], byteInputRate = [],
      perWorkerCpuTimeRate = [], lastRender = None, lastRefresh = None,
      lastInputRows = Null, lastInputBytes = Null, lastCpuTime = Null\<rparr>"

section \<open>The success callback of \<open>refreshLoop\<close>\<close>

text \<open>
  The callback reads the state in two ways. The variables it names directly
  (\<open>lastRefresh\<close>, \<open>lastInputRows\<close>, \<open>lastInputBytes\<close>, \<open>lastCpuTime\<close> and the three rate
  series) are those of the render whose closure it is: the state \<open>c\<close> below. The
  updater functions \<open>prev => ...\<close> receive the state current when the update is applied:
  the state \<open>s\<close>. \<open>Date.now()\<close> is read twice, at line 70 (\<open>now\<close>) and at line 94
  (\<open>now'\<close>). The definitions follow lines 63 to 94 of ClusterHUD.jsx, for any
  closure \<open>c\<close>; the closure the component runs the callback with is fixed in the
  section on the polls of the component below.
\<close>

definition secsSinceRefresh :: "int \<Rightarrow> int \<Rightarrow> jsnum" where
  "secsSinceRefresh now lr = js_div (js_sub (Fin (of_int now)) (Fin (of_int lr))) (Fin 1000)"

definition rowsInputSinceRefresh :: "hud_state \<Rightarrow> clusterState \<Rightarrow> jsnum" where
  "rowsInputSinceRefresh c clusterState =
     js_sub (ToNumber (get_prop clusterState ''totalInputRows'')) (ToNumber (lastInputRows c))"

definition bytesInputSinceRefresh :: "hud_state \<Rightarrow> clusterState \<Rightarrow> jsnum" where
  "bytesInputSinceRefresh c clusterState =
     js_sub (ToNumber (get_prop clusterState ''totalInputBytes'')) (ToNumber (lastInputBytes c))"

definition cpuTimeSinceRefresh :: "hud_state \<Rightarrow> clusterState \<Rightarrow> jsnum" where
  "cpuTimeSinceRefresh c clusterState =
     js_sub (ToNumber (get_prop clusterState ''totalCpuTimeSecs'')) (ToNumber (lastCpuTime c))"

definition newRowInputRate ::
  "nat \<Rightarrow> rat \<Rightarrow> hud_state \<Rightarrow> clusterState \<Rightarrow> int \<Rightarrow> jsval list" where
  "newRowInputRate maxLength alpha c clusterState now =
     (case lastRefresh c of
        None \<Rightarrow> []
      | Some lr \<Rightarrow>
          addExponentiallyWeightedToHistory maxLength alpha
            (Number (js_div (rowsInputSinceRefresh c clusterState) (secsSinceRefresh now lr)))
            (rowInputRate c))"

definition newByteInputRate ::
  "nat \<Rightarrow> rat \<Rightarrow> hud_state \<Rightarrow> clusterState \<Rightarrow> int \<Rightarrow> jsval list" where
  "newByteInputRate maxLength alpha c clusterState now =
     (case lastRefresh c of
        None \<Rightarrow> []
      | Some lr \<Rightarrow>
          addExponentiallyWeightedToHistory maxLength alpha
            (Number (js_div (bytesInputSinceRefresh c clusterState) (secsSinceRefresh now lr)))
            (byteInputRate c))"

definition newPerWorkerCpuTimeRate ::
  "nat \<Rightarrow> rat \<Rightarrow> hud_state \<Rightarrow> clusterState \<Rightarrow> int \<Rightarrow> jsval list" where
  "newPerWorkerCpuTimeRate maxLength alpha c clusterState now =
     (case lastRefresh c of
        None \<Rightarrow> []
      | Some lr \<Rightarrow>
          addExponentiallyWeightedToHistory maxLength alpha
            (Number (js_div
               (js_div (cpuTimeSinceRefresh c clusterState)
                       (ToNumber (get_prop clusterState ''activeWorkers'')))
               (secsSinceRefresh now lr)))
            (perWorkerCpuTimeRate c))"

definition refreshLoop_success ::
  "nat \<Rightarrow> rat \<Rightarrow> hud_state \<Rightarrow> hud_state \<Rightarrow> clusterState \<Rightarrow> int \<Rightarrow> int \<Rightarrow> hud_state" where
  "refreshLoop_success maxLength alpha c s clusterState now now' =
     s\<lparr>runningQueries :=
         addToHistory maxLength (get_prop clusterState ''runningQueries'') (runningQueries s),
       queuedQueries :=
         addToHistory maxLength (get_prop clusterState ''queuedQueries'') (queuedQueries s),
       blockedQueries :=
         addToHistory maxLength (get_prop clusterState ''blockedQueries'') (blockedQueries s),
       activeWorkers :=
         addToHistory maxLength (get_prop clusterState ''activeWorkers'') (activeWorkers s),
       runningDrivers :=
         addExponentiallyWeightedToHistory maxLength alpha
           (get_prop clusterState ''runningDrivers'') (runningDrivers s),
       reservedMemory :=
         addExponentiallyWeightedToHistory maxLength alpha
           (get_prop clusterState ''reservedMemory'') (reservedMemory s),
       rowInputRate := newRowInputRate maxLength alpha c clusterState now,
       byteInputRate := newByteInputRate maxLength alpha c clusterState now,
       perWorkerCpuTimeRate := newPerWorkerCpuTimeRate maxLength alpha c clusterState now,
       lastInputRows := get_prop clusterState ''totalInputRows'',
       lastInputBytes := get_prop clusterState ''totalInputBytes'',
       lastCpuTime := get_prop clusterState ''totalCpuTimeSecs'',
       lastRefresh := Some now'\<rparr>"

section \<open>The continuation timer\<close>

text \<open>
  The browser's timers, as far as the component uses them: \<open>pending\<close> lists the timers
  set and neither fired nor cleared, each with its identifier and its delay in
  milliseconds; \<open>nextId\<close> is the identifier the next \<open>setTimeout\<close> returns;
  \<open>timeoutIdRef\<close> is \<open>timeoutIdRef.current\<close> (\<open>None\<close> for \<open>null\<close>); \<open>inFlight\<close> counts
  the requests issued by \<open>$.get\<close> whose callback has not run yet. \<open>resetTimer\<close> is
  lines 50 to 57: \<open>clearTimeout\<close>, then \<open>setTimeout\<close> with the delay 1000.
\<close>

record scheduler =
  timeoutIdRef :: "nat option"
  pending :: "(nat \<times> nat) list"
  nextId :: nat
  inFlight :: nat

definition initial_scheduler :: scheduler where
  "initial_scheduler = \<lparr>timeoutIdRef = None, pending = [], nextId = 1, inFlight = 0\<rparr>"

definition clearTimeout :: "nat option \<Rightarrow> scheduler \<Rightarrow> scheduler" where
  "clearTimeout h T =
     (case h of
        None \<Rightarrow> T
      | Some i \<Rightarrow> T\<lparr>pending := filter (\<lambda>p. fst p \<noteq> i) (pending T)\<rparr>)"

definition setTimeout :: "nat \<Rightarrow> scheduler \<Rightarrow> nat \<times> scheduler" where
  "setTimeout delay T =
     (nextId T, T\<lparr>pending := pending T @ [(nextId T, delay)], nextId := Suc (nextId T)\<rparr>)"

definition resetTimer :: "scheduler \<Rightarrow> scheduler" where
  "resetTimer T =
     (let T1 = clearTimeout (timeoutIdRef T) T;
          (i, T2) = setTimeout 1000 T1
      in T2\<lparr>timeoutIdRef := Some i\<rparr>)"

text \<open>
  Entering \<open>refreshLoop\<close> (lines 59 to 61): the pending timer is cleared and a request
  is issued.
\<close>

definition refreshLoop :: "scheduler \<Rightarrow> scheduler" where
  "refreshLoop T =
     (let T1 = clearTimeout (timeoutIdRef T) T in T1\<lparr>inFlight := Suc (inFlight T1)\<rparr>)"

text \<open>
  Both callbacks of \<open>$.get\<close> end with \<open>resetTimer()\<close>; the request is then no longer in
  flight.
\<close>

definition request_done :: "scheduler \<Rightarrow> scheduler" where
  "request_done T = resetTimer (T\<lparr>inFlight := inFlight T - 1\<rparr>)"

text \<open>The two callbacks of the request, on the component state and the timers together.\<close>

definition fetch_success ::
  "nat \<Rightarrow> rat \<Rightarrow> hud_state \<Rightarrow> hud_state \<times> scheduler \<Rightarrow> clusterState \<Rightarrow> int \<Rightarrow> int
   \<Rightarrow> hud_state \<times> scheduler" where
  "fetch_success maxLength alpha c v clusterState now now' =
     (refreshLoop_success maxLength alpha c (fst v) clusterState now now', request_done (snd v))"

definition fetch_fail :: "hud_state \<times> scheduler \<Rightarrow> hud_state \<times> scheduler" where
  "fetch_fail v = (fst v, request_done (snd v))"

text \<open>
  What can happen to the timers during the life of the view: the mount effect calls
  \<open>refreshLoop\<close>; a pending timer fires and its callback calls \<open>refreshLoop\<close>; a request
  completes, and both of its callbacks end in \<open>resetTimer\<close>; \<open>refreshLoop\<close> is entered
  once more from elsewhere; the cleanup of the mount effect clears the timer.
\<close>

datatype event = Mount | TimerFires nat | FetchCompletes | Reenter | Unmount

fun step :: "scheduler \<Rightarrow> event \<Rightarrow> scheduler" where
  "step T Mount = refreshLoop T"
| "step T (TimerFires i) =
     (if i \<in> fst ` set (pending T)
      then refreshLoop (T\<lparr>pending := filter (\<lambda>p. fst p \<noteq> i) (pending T)\<rparr>)
      else T)"
| "step T FetchCompletes =
     (if 0 < inFlight T then request_done T else T)"
| "step T Reenter = refreshLoop T"
| "step T Unmount = clearTimeout (timeoutIdRef T) T"

definition run :: "event list \<Rightarrow> scheduler" where
  "run evs = foldl step initial_scheduler evs"

text \<open>
  The events that enter \<open>refreshLoop\<close> from outside the loop. In the component the only
  one is the mount effect: \<open>refreshLoop\<close> has no caller but the mount effect (line 105)
  and the timer callback of \<open>resetTimer\<close> (line 55).
\<close>

fun is_entry :: "event \<Rightarrow> bool" where
  "is_entry Mount = True"
| "is_entry Reenter = True"
| "is_entry e = False"

text \<open>
  The invariant of the timers: nothing is pending, or exactly the timer that
  \<open>timeoutIdRef\<close> names.
\<close>

definition one_timer :: "scheduler \<Rightarrow> bool" where
  "one_timer T =
     (case pending T of
        [] \<Rightarrow> True
      | [p] \<Rightarrow> timeoutIdRef T = Some (fst p)
      | _ \<Rightarrow> False)"

text \<open>
  One round of a failing poll: the timer named by \<open>timeoutIdRef\<close> fires, \<open>refreshLoop\<close>
  issues the request, and the request fails.
\<close>

definition fire_timer :: "hud_state \<times> scheduler \<Rightarrow> hud_state \<times> scheduler" where
  "fire_timer v =
     (case timeoutIdRef (snd v) of
        None \<Rightarrow> v
      | Some i \<Rightarrow> (fst v, step (snd v) (TimerFires i)))"

definition failed_round :: "hud_state \<times> scheduler \<Rightarrow> hud_state \<times> scheduler" where
  "failed_round v = fetch_fail (fire_timer v)"

section \<open>The polls of the component\<close>

text \<open>
  Which closure handles a response. \<open>resetTimer\<close> is \<open>useCallback(..., [])\<close> (lines 50
  to 57): with no dependency React returns the function of the first render on every
  render, and the \<open>refreshLoop\<close> that function calls is the one of the first render's
  scope. The mount effect has the dependency list \<open>[]\<close> (lines 104 to 111): it runs once,
  after the first render, and calls the first render's \<open>refreshLoop\<close>. \<open>refreshLoop\<close> has
  no other caller. So every request is issued, and every response handled, by the
  \<open>refreshLoop\<close> of the first render, whose variables hold the initial values of
  \<open>useState\<close> (lines 30 to 45), whatever the state has become; the dependency list of
  line 101 makes later renders build a fresh \<open>refreshLoop\<close>, which nothing calls.
\<close>

definition first_render_closure :: hud_state where
  "first_render_closure = initial_state"

text \<open>
  The component after the mount effect: the initial state, one request in flight. A
  poll is the outcome of the request in flight: its callback runs (with the first
  render's closure on success), then the timer it set fires and issues the next
  request.
\<close>

definition mounted :: "hud_state \<times> scheduler" where
  "mounted = (initial_state, step initial_scheduler Mount)"

datatype poll = Succeeds clusterState int int | Fails

fun poll_step :: "nat \<Rightarrow> rat \<Rightarrow> hud_state \<times> scheduler \<Rightarrow> poll \<Rightarrow> hud_state \<times> scheduler" where
  "poll_step maxLength alpha v (Succeeds clusterState now now') =
     fire_timer (fetch_success maxLength alpha first_render_closure v clusterState now now')"
| "poll_step maxLength alpha v Fails = fire_timer (fetch_fail v)"

definition polls :: "nat \<Rightarrow> rat \<Rightarrow> poll list \<Rightarrow> hud_state \<times> scheduler" where
  "polls maxLength alpha ps = foldl (poll_step maxLength alpha) mounted ps"

section \<open>The update effect\<close>

text \<open>
  The effect that redraws the sparklines. \<open>Date.now()\<close> is read in the test
  (\<open>now\<close>) and again for \<open>renderTimestamp\<close> (\<open>now'\<close>). The first component of the
  result says whether the sparklines were drawn.
\<close>

definition update_effect :: "hud_state \<Rightarrow> int \<Rightarrow> int \<Rightarrow> bool \<times> hud_state" where
  "update_effect s now now' =
     (case lastRender s of
        None \<Rightarrow> (True, s\<lparr>lastRender := Some now'\<rparr>)
      | Some t \<Rightarrow>
          if 1000 \<le> now - t then (True, s\<lparr>lastRender := Some now'\<rparr>) else (False, s))"

section \<open>Sample polls\<close>

text \<open>
  Two consecutive documents of a cluster with two workers, a third one with no worker,
  and one that carries the reserved memory under the name \<open>reservedMemoryBytes\<close> only.
  In the theorems on sample polls the capacity 100 and the weight 1/5 stand for the
  constants of \<open>../utils\<close>.
\<close>

definition poll1_snapshot :: clusterState where
  "poll1_snapshot = map_of
     [(''runningQueries'', Number (Fin 3)), (''queuedQueries'', Number (Fin 1)),
      (''blockedQueries'', Number (Fin 0)), (''activeWorkers'', Number (Fin 2)),
      (''runningDrivers'', Number (Fin 8)), (''reservedMemory'', Number (Fin 4096)),
      (''totalInputRows'', Number (Fin 1000)), (''totalInputBytes'', Number (Fin 500000)),
      (''totalCpuTimeSecs'', Number (Fin 10))]"

definition poll2_snapshot :: clusterState where
  "poll2_snapshot = map_of
     [(''runningQueries'', Number (Fin 3)), (''queuedQueries'', Number (Fin 1)),
      (''blockedQueries'', Number (Fin 0)), (''activeWorkers'', Number (Fin 2)),
      (''runningDrivers'', Number (Fin 8)), (''reservedMemory'', Number (Fin 4096)),
      (''totalInputRows'', Number (Fin 1500)), (''totalInputBytes'', Number (Fin 700000)),
      (''totalCpuTimeSecs'', Number (Fin 12))]"

definition zero_worker_snapshot :: clusterState where
  "zero_worker_snapshot = poll2_snapshot(''activeWorkers'' \<mapsto> Number (Fin 0))"

definition bytes_only_snapshot :: clusterState where
  "bytes_only_snapshot =
     (poll1_snapshot(''reservedMemory'' := None))(''reservedMemoryBytes'' \<mapsto> Number (Fin 4096))"

text \<open>A sample that carries no data: \<open>undefined\<close> or \<open>NaN\<close>.\<close>

definition no_data :: "jsval \<Rightarrow> bool" where
  "no_data v = (v = Undefined \<or> v = Number NaN)"

section \<open>Bounded history\<close>

lemma length_trim: "length (trim L ys) = min (length ys) L"
  by (simp add: trim_def)

lemma trim_snoc_drop:
  "trim L (drop (length vs - L) vs @ [v]) = drop (length (vs @ [v]) - L) (vs @ [v])"
proof (cases "length vs < L")
  case True
  then show ?thesis by (simp add: trim_def)
next
  case False
  then have "length vs - L + (Suc L - L) = Suc (length vs) - L" by simp
  with False show ?thesis
    by (simp add: trim_def min_def Suc_diff_le)
qed

lemma appends_from_empty:
  "foldl (\<lambda>s v. addToHistory L v s) [] vs = drop (length vs - L) vs"
proof (induction vs rule: rev_induct)
  case Nil
  then show ?case by simp
next
  case (snoc v vs)
  then show ?case
    using trim_snoc_drop [of L vs v] by (simp add: addToHistory_def)
qed

text \<open>
  C6. Raw mode, capacity \<open>L\<close>: after appending the values \<open>vs\<close> one by one to an empty
  series, the series is the last \<open>L\<close> values of \<open>vs\<close> in their order and its length is
  the minimum of the number of appends and \<open>L\<close>; and a single append to any series leaves
  at most \<open>L\<close> samples.
\<close>

theorem addToHistory_bounded:
  "foldl (\<lambda>s v. addToHistory L v s) [] vs = drop (length vs - L) vs
   \<and> length (foldl (\<lambda>s v. addToHistory L v s) [] vs) = min (length vs) L
   \<and> length (addToHistory L v xs) \<le> L"
proof -
  have "length (addToHistory L v xs) \<le> L"
    by (simp add: addToHistory_def length_trim)
  moreover have "length (drop (length vs - L) vs) = min (length vs) L"
    by simp
  ultimately show ?thesis
    by (simp add: appends_from_empty)
qed

section \<open>Facts about the helpers\<close>

lemma last_trim_snoc: "0 < L \<Longrightarrow> last (trim L (xs @ [v])) = v"
  by (simp add: trim_def)

lemma trim_single: "0 < L \<Longrightarrow> trim L [v] = [v]"
  by (simp add: trim_def)

lemma addToHistory_empty: "0 < L \<Longrightarrow> addToHistory L v [] = [v]"
  by (simp add: addToHistory_def trim_single)

lemma addEW_empty: "0 < L \<Longrightarrow> addExponentiallyWeightedToHistory L \<alpha> v [] = [v]"
  by (simp add: addExponentiallyWeightedToHistory_def trim_single)

lemma length_addEW:
  "length (addExponentiallyWeightedToHistory L \<alpha> v xs) = min (Suc (length xs)) L"
  by (simp add: addExponentiallyWeightedToHistory_def length_trim)

lemma js_mul_NaN: "js_mul a NaN = NaN"
  by (simp add: js_mul_def)

lemma addEW_undefined_no_data:
  assumes "0 < L"
  shows "no_data (last (addExponentiallyWeightedToHistory L \<alpha> Undefined xs))"
  using assms
  by (simp add: addExponentiallyWeightedToHistory_def last_trim_snoc trim_single no_data_def
      js_mul_NaN)

lemma get_prop_other: "k \<noteq> k' \<Longrightarrow> get_prop (cs(k := x)) k' = get_prop cs k'"
  by (simp add: get_prop_def)

section \<open>The rate series after a successful poll\<close>

lemmas rate_defs =
  newRowInputRate_def newByteInputRate_def newPerWorkerCpuTimeRate_def
  rowsInputSinceRefresh_def bytesInputSinceRefresh_def cpuTimeSinceRefresh_def

text \<open>
  What lines 66 to 74 compute when they are entered, that is for a closure that holds a
  previous poll: the quotients of the claims C1 to C3, handed to the weighted append.
\<close>

lemma row_step:
  "lastRefresh c = Some t \<Longrightarrow>
   rowInputRate (refreshLoop_success L \<alpha> c s cs now now') =
     addExponentiallyWeightedToHistory L \<alpha>
       (Number (js_div (rowsInputSinceRefresh c cs) (secsSinceRefresh now t))) (rowInputRate c)"
  by (simp add: refreshLoop_success_def newRowInputRate_def)

lemma byte_step:
  "lastRefresh c = Some t \<Longrightarrow>
   byteInputRate (refreshLoop_success L \<alpha> c s cs now now') =
     addExponentiallyWeightedToHistory L \<alpha>
       (Number (js_div (bytesInputSinceRefresh c cs) (secsSinceRefresh now t))) (byteInputRate c)"
  by (simp add: refreshLoop_success_def newByteInputRate_def)

lemma per_worker_step:
  "lastRefresh c = Some t \<Longrightarrow>
   perWorkerCpuTimeRate (refreshLoop_success L \<alpha> c s cs now now') =
     addExponentiallyWeightedToHistory L \<alpha>
       (Number (js_div (js_div (cpuTimeSinceRefresh c cs)
                               (ToNumber (get_prop cs ''activeWorkers'')))
                       (secsSinceRefresh now t)))
       (perWorkerCpuTimeRate c)"
  by (simp add: refreshLoop_success_def newPerWorkerCpuTimeRate_def)

text \<open>With the closure of the first render they are not entered.\<close>

lemma first_render_no_previous: "lastRefresh first_render_closure = None"
  by (simp add: first_render_closure_def initial_state_def)

lemma first_render_rates:
  "rowInputRate (refreshLoop_success L \<alpha> first_render_closure s cs now now') = []"
  "byteInputRate (refreshLoop_success L \<alpha> first_render_closure s cs now now') = []"
  "perWorkerCpuTimeRate (refreshLoop_success L \<alpha> first_render_closure s cs now now') = []"
  by (simp_all add: refreshLoop_success_def rate_defs first_render_no_previous)


lemma fst_fetch_success:
  "fst (fetch_success L \<alpha> c v cs now now') = refreshLoop_success L \<alpha> c (fst v) cs now now'"
  by (simp add: fetch_success_def)

lemma fst_fetch_fail: "fst (fetch_fail v) = fst v"
  by (simp add: fetch_fail_def)

lemma fst_fire_timer: "fst (fire_timer v) = fst v"
  by (simp add: fire_timer_def split: option.split)

lemma fst_poll_step:
  "fst (poll_step L \<alpha> v (Succeeds cs now now'))
     = refreshLoop_success L \<alpha> first_render_closure (fst v) cs now now'"
  "fst (poll_step L \<alpha> v Fails) = fst v"
  by (simp_all add: fst_fire_timer fst_fetch_success fst_fetch_fail)

declare poll_step.simps [simp del]

lemma fst_mounted: "fst mounted = initial_state"
  by (simp add: mounted_def)

lemma polls_Nil: "fst (polls L \<alpha> []) = initial_state"
  by (simp add: polls_def fst_mounted)

lemma polls_snoc: "polls L \<alpha> (ps @ [p]) = poll_step L \<alpha> (polls L \<alpha> ps) p"
  by (simp add: polls_def)

lemma polls_one: "polls L \<alpha> [p] = poll_step L \<alpha> mounted p"
  by (simp add: polls_def)

lemma polls_two: "polls L \<alpha> [p, q] = poll_step L \<alpha> (polls L \<alpha> [p]) q"
  by (simp add: polls_def)

text \<open>Whatever the polls were, the three rate series of the component are empty.\<close>

lemma polls_rates_empty:
  "rowInputRate (fst (polls L \<alpha> ps)) = []
   \<and> byteInputRate (fst (polls L \<alpha> ps)) = []
   \<and> perWorkerCpuTimeRate (fst (polls L \<alpha> ps)) = []"
proof (induction ps rule: rev_induct)
  case Nil
  show ?case by (simp add: polls_Nil initial_state_def)
next
  case (snoc p ps)
  show ?case
  proof (cases p)
    case (Succeeds cs now now')
    then show ?thesis
      by (simp add: polls_snoc fst_poll_step first_render_rates)
  next
    case Fails
    with snoc show ?thesis
      by (simp add: polls_snoc fst_poll_step)
  qed
qed

text \<open>The sample polls, evaluated.\<close>

lemma after_first_poll:
  "lastRefresh (fst (polls 100 (1 / 5) [Succeeds poll1_snapshot 0 0])) = Some 0"
  "lastInputRows (fst (polls 100 (1 / 5) [Succeeds poll1_snapshot 0 0])) = Number (Fin 1000)"
  "lastInputBytes (fst (polls 100 (1 / 5) [Succeeds poll1_snapshot 0 0])) = Number (Fin 500000)"
  "lastCpuTime (fst (polls 100 (1 / 5) [Succeeds poll1_snapshot 0 0])) = Number (Fin 10)"
  by (simp_all add: polls_one fst_poll_step fst_mounted refreshLoop_success_def
      poll1_snapshot_def get_prop_def)

lemma after_failed_poll:
  "lastRefresh (fst (polls 100 (1 / 5) [Succeeds poll1_snapshot 0 0, Fails])) = Some 0"
  "lastInputRows (fst (polls 100 (1 / 5) [Succeeds poll1_snapshot 0 0, Fails]))
     = Number (Fin 1000)"
  by (simp_all add: polls_two fst_poll_step after_first_poll)

lemma poll2_fields:
  "get_prop poll2_snapshot ''totalInputRows'' = Number (Fin 1500)"
  "get_prop poll2_snapshot ''totalInputBytes'' = Number (Fin 700000)"
  "get_prop poll2_snapshot ''totalCpuTimeSecs'' = Number (Fin 12)"
  "get_prop poll2_snapshot ''activeWorkers'' = Number (Fin 2)"
  by (simp_all add: poll2_snapshot_def get_prop_def)

lemma zero_worker_fields:
  "get_prop zero_worker_snapshot ''totalInputRows'' = Number (Fin 1500)"
  "get_prop zero_worker_snapshot ''totalInputBytes'' = Number (Fin 700000)"
  "get_prop zero_worker_snapshot ''totalCpuTimeSecs'' = Number (Fin 12)"
  "get_prop zero_worker_snapshot ''activeWorkers'' = Number (Fin 0)"
  by (simp_all add: zero_worker_snapshot_def poll2_snapshot_def get_prop_def)

text \<open>
  C1. The claim does not hold of the component. Poll 1 at time 0 reads 1000 rows and
  500000 bytes and is recorded as the previous poll; poll 2 at 1000 ms reads 1500 rows
  and 700000 bytes. The claim gives the row rate 500 and the byte rate 200000; the
  component, which handles poll 2 with the closure of the first render, leaves both
  series empty.
\<close>

theorem second_poll_emits_no_rate:
  "lastRefresh (fst (polls 100 (1 / 5) [Succeeds poll1_snapshot 0 0])) = Some 0
   \<and> lastInputRows (fst (polls 100 (1 / 5) [Succeeds poll1_snapshot 0 0])) = Number (Fin 1000)
   \<and> get_prop poll2_snapshot ''totalInputRows'' = Number (Fin 1500)
   \<and> rowInputRate
        (fst (polls 100 (1 / 5) [Succeeds poll1_snapshot 0 0, Succeeds poll2_snapshot 1000 1000]))
       = []
   \<and> byteInputRate
        (fst (polls 100 (1 / 5) [Succeeds poll1_snapshot 0 0, Succeeds poll2_snapshot 1000 1000]))
       = []"
  using polls_rates_empty
    [of 100 "1 / 5" "[Succeeds poll1_snapshot 0 0, Succeeds poll2_snapshot 1000 1000]"]
  by (simp add: after_first_poll poll2_fields)

text \<open>
  C2. The claim does not hold of the component. Poll 1 at time 0 is recorded as the
  previous poll; poll 2 at 1000 ms reports no active worker. The per-worker series
  receives no sample, as the claim says, but the other two rates are not computed
  either: the row and byte series stay empty, where the claim has the rates 500 and
  200000 computed.
\<close>

theorem zero_worker_poll_emits_no_rate:
  "lastRefresh (fst (polls 100 (1 / 5) [Succeeds poll1_snapshot 0 0])) = Some 0
   \<and> get_prop zero_worker_snapshot ''activeWorkers'' = Number (Fin 0)
   \<and> perWorkerCpuTimeRate
        (fst (polls 100 (1 / 5)
           [Succeeds poll1_snapshot 0 0, Succeeds zero_worker_snapshot 1000 1000])) = []
   \<and> rowInputRate
        (fst (polls 100 (1 / 5)
           [Succeeds poll1_snapshot 0 0, Succeeds zero_worker_snapshot 1000 1000])) = []
   \<and> byteInputRate
        (fst (polls 100 (1 / 5)
           [Succeeds poll1_snapshot 0 0, Succeeds zero_worker_snapshot 1000 1000])) = []"
  using polls_rates_empty
    [of 100 "1 / 5" "[Succeeds poll1_snapshot 0 0, Succeeds zero_worker_snapshot 1000 1000]"]
  by (simp add: after_first_poll zero_worker_fields)



text \<open>
  C4. The first successful poll: the closure holds no previous poll and the state is
  the initial one. The three rate series stay empty, and each of the six point-in-time
  series holds exactly the one value read from the document (capacity at least one).
\<close>

theorem first_poll_no_rates:
  assumes "lastRefresh c = None" and "0 < L"
  shows
    "rowInputRate (refreshLoop_success L \<alpha> c initial_state cs now now') = []
     \<and> byteInputRate (refreshLoop_success L \<alpha> c initial_state cs now now') = []
     \<and> perWorkerCpuTimeRate (refreshLoop_success L \<alpha> c initial_state cs now now') = []
     \<and> runningQueries (refreshLoop_success L \<alpha> c initial_state cs now now')
         = [get_prop cs ''runningQueries'']
     \<and> queuedQueries (refreshLoop_success L \<alpha> c initial_state cs now now')
         = [get_prop cs ''queuedQueries'']
     \<and> blockedQueries (refreshLoop_success L \<alpha> c initial_state cs now now')
         = [get_prop cs ''blockedQueries'']
     \<and> activeWorkers (refreshLoop_success L \<alpha> c initial_state cs now now')
         = [get_prop cs ''activeWorkers'']
     \<and> runningDrivers (refreshLoop_success L \<alpha> c initial_state cs now now')
         = [get_prop cs ''runningDrivers'']
     \<and> reservedMemory (refreshLoop_success L \<alpha> c initial_state cs now now')
         = [get_prop cs ''reservedMemory'']"
  using assms
  by (simp add: refreshLoop_success_def rate_defs initial_state_def addToHistory_empty
      addEW_empty)

theorem first_poll_no_rates_witness:
  "lastRefresh initial_state = None \<and> (0::nat) < 100
   \<and> rowInputRate (refreshLoop_success 100 (1 / 5) initial_state initial_state poll1_snapshot 0 0)
       = rowInputRate initial_state
   \<and> length (runningQueries
        (refreshLoop_success 100 (1 / 5) initial_state initial_state poll1_snapshot 0 0)) = 1
   \<and> runningQueries (refreshLoop_success 100 (1 / 5) initial_state initial_state poll1_snapshot 0 0)
       = [Number (Fin 3)]"
proof -
  have first: "lastRefresh initial_state = None"
    by (simp add: initial_state_def)
  note r = first_poll_no_rates [OF first, of 100 "1 / 5" poll1_snapshot 0 0]
  have "get_prop poll1_snapshot ''runningQueries'' = Number (Fin 3)"
    by (simp add: poll1_snapshot_def get_prop_def)
  moreover have "rowInputRate initial_state = []"
    by (simp add: initial_state_def)
  ultimately show ?thesis
    using r first by simp
qed

text \<open>
  C9. After a successful poll the three rate series are the arrays computed from the
  closure's values before the updates: they do not depend on the state the updates are
  applied to. When the closure holds no previous poll they are the empty array,
  whatever the series held.
\<close>

theorem rate_series_replaced:
  "rowInputRate (refreshLoop_success L \<alpha> c s cs now now')
     = rowInputRate (refreshLoop_success L \<alpha> c s2 cs now now')
   \<and> byteInputRate (refreshLoop_success L \<alpha> c s cs now now')
     = byteInputRate (refreshLoop_success L \<alpha> c s2 cs now now')
   \<and> perWorkerCpuTimeRate (refreshLoop_success L \<alpha> c s cs now now')
     = perWorkerCpuTimeRate (refreshLoop_success L \<alpha> c s2 cs now now')
   \<and> (lastRefresh c = None \<longrightarrow>
        rowInputRate (refreshLoop_success L \<alpha> c s cs now now') = []
        \<and> byteInputRate (refreshLoop_success L \<alpha> c s cs now now') = []
        \<and> perWorkerCpuTimeRate (refreshLoop_success L \<alpha> c s cs now now') = [])"
  by (simp add: refreshLoop_success_def rate_defs)

text \<open>
  A state whose rate series hold one sample each, updated by a callback whose closure
  is that of the first render: the samples are gone. (The component itself never has
  samples in these series; the state stands for any state that has.)
\<close>

theorem rate_series_replaced_witness:
  "lastRefresh initial_state = None
   \<and> rowInputRate
        (refreshLoop_success 100 (1 / 5) initial_state
           (initial_state\<lparr>rowInputRate := [Number (Fin 500)],
              byteInputRate := [Number (Fin 200000)],
              perWorkerCpuTimeRate := [Number (Fin 1)]\<rparr>) poll2_snapshot 2000 2000) = []
   \<and> byteInputRate
        (refreshLoop_success 100 (1 / 5) initial_state
           (initial_state\<lparr>rowInputRate := [Number (Fin 500)],
              byteInputRate := [Number (Fin 200000)],
              perWorkerCpuTimeRate := [Number (Fin 1)]\<rparr>) poll2_snapshot 2000 2000) = []
   \<and> perWorkerCpuTimeRate
        (refreshLoop_success 100 (1 / 5) initial_state
           (initial_state\<lparr>rowInputRate := [Number (Fin 500)],
              byteInputRate := [Number (Fin 200000)],
              perWorkerCpuTimeRate := [Number (Fin 1)]\<rparr>) poll2_snapshot 2000 2000) = []"
proof -
  have stale: "lastRefresh initial_state = None"
    by (simp add: initial_state_def)
  note r = rate_series_replaced
    [of 100 "1 / 5" initial_state
        "initial_state\<lparr>rowInputRate := [Number (Fin 500)],
           byteInputRate := [Number (Fin 200000)],
           perWorkerCpuTimeRate := [Number (Fin 1)]\<rparr>" poll2_snapshot 2000 2000 initial_state]
  from r stale show ?thesis
    by blast
qed

text \<open>
  C10. The sample appended to the reserved-memory series is read from the property
  \<open>reservedMemory\<close>; the property \<open>reservedMemoryBytes\<close> is never read (setting or
  removing it changes nothing). When the document has no \<open>reservedMemory\<close>, the sample
  appended is a no-data one (\<open>undefined\<close> on an empty series, \<open>NaN\<close> after smoothing).
\<close>

theorem reservedMemory_property_read:
  "reservedMemory (refreshLoop_success L \<alpha> c s cs now now')
     = addExponentiallyWeightedToHistory L \<alpha> (get_prop cs ''reservedMemory'') (reservedMemory s)
   \<and> refreshLoop_success L \<alpha> c s (cs(''reservedMemoryBytes'' := x)) now now'
     = refreshLoop_success L \<alpha> c s cs now now'
   \<and> (cs ''reservedMemory'' = None \<and> 0 < L \<longrightarrow>
        no_data (last (reservedMemory (refreshLoop_success L \<alpha> c s cs now now')))
        \<and> length (reservedMemory (refreshLoop_success L \<alpha> c s cs now now'))
            = min (Suc (length (reservedMemory s))) L)"
proof -
  have a: "reservedMemory (refreshLoop_success L \<alpha> c s cs now now')
     = addExponentiallyWeightedToHistory L \<alpha> (get_prop cs ''reservedMemory'') (reservedMemory s)"
    by (simp add: refreshLoop_success_def)
  have b: "refreshLoop_success L \<alpha> c s (cs(''reservedMemoryBytes'' := x)) now now'
     = refreshLoop_success L \<alpha> c s cs now now'"
    by (simp add: refreshLoop_success_def rate_defs get_prop_other split: option.split)
  have c: "no_data (last (reservedMemory (refreshLoop_success L \<alpha> c s cs now now')))"
    if "cs ''reservedMemory'' = None" and "0 < L"
  proof -
    from that(1) have "get_prop cs ''reservedMemory'' = Undefined"
      by (simp add: get_prop_def)
    with that(2) show ?thesis
      by (simp add: a addEW_undefined_no_data)
  qed
  from a b c show ?thesis
    by (simp add: length_addEW)
qed

text \<open>
  A document with \<open>reservedMemoryBytes\<close> only gives \<open>undefined\<close>; one with
  \<open>reservedMemory\<close> gives its value.
\<close>

theorem reservedMemory_property_read_witness:
  "bytes_only_snapshot ''reservedMemory'' = None \<and> (0::nat) < 100
   \<and> bytes_only_snapshot ''reservedMemoryBytes'' = Some (Number (Fin 4096))
   \<and> reservedMemory
        (refreshLoop_success 100 (1 / 5) initial_state initial_state bytes_only_snapshot 0 0)
       = [Undefined]
   \<and> no_data (last (reservedMemory
        (refreshLoop_success 100 (1 / 5) initial_state initial_state bytes_only_snapshot 0 0)))
   \<and> reservedMemory
        (refreshLoop_success 100 (1 / 5) initial_state initial_state poll1_snapshot 0 0)
       = [Number (Fin 4096)]"
proof -
  have absent: "bytes_only_snapshot ''reservedMemory'' = None"
    by (simp add: bytes_only_snapshot_def)
  have present: "bytes_only_snapshot ''reservedMemoryBytes'' = Some (Number (Fin 4096))"
    by (simp add: bytes_only_snapshot_def)
  have undef: "get_prop bytes_only_snapshot ''reservedMemory'' = Undefined"
    by (simp add: get_prop_def absent)
  have given: "get_prop poll1_snapshot ''reservedMemory'' = Number (Fin 4096)"
    by (simp add: get_prop_def poll1_snapshot_def)
  have empty: "reservedMemory initial_state = []"
    by (simp add: initial_state_def)
  note r = reservedMemory_property_read
    [of 100 "1 / 5" initial_state initial_state bytes_only_snapshot 0 0 None]
  note r1 = reservedMemory_property_read
    [of 100 "1 / 5" initial_state initial_state poll1_snapshot 0 0 None]
  from r r1 absent present show ?thesis
    by (simp add: undef given empty addEW_empty no_data_def)
qed

section \<open>At most one pending timer\<close>

lemma one_timer_cases:
  "one_timer T \<longleftrightarrow> pending T = [] \<or> (\<exists>p. pending T = [p] \<and> timeoutIdRef T = Some (fst p))"
  by (auto simp: one_timer_def split: list.splits)

lemma clear_own_timer:
  "one_timer T \<Longrightarrow> pending (clearTimeout (timeoutIdRef T) T) = []"
  by (auto simp: one_timer_cases clearTimeout_def split: option.splits)

lemma pending_refreshLoop:
  "one_timer T \<Longrightarrow> pending (refreshLoop T) = []"
  by (simp add: refreshLoop_def Let_def clear_own_timer)

lemma pending_resetTimer:
  "one_timer T \<Longrightarrow> pending (resetTimer T) = [(nextId T, 1000)]"
  using clear_own_timer [of T]
  by (simp add: resetTimer_def setTimeout_def Let_def clearTimeout_def split: option.splits)

lemma ref_resetTimer: "timeoutIdRef (resetTimer T) = Some (nextId T)"
  by (simp add: resetTimer_def setTimeout_def Let_def clearTimeout_def split: option.splits)

lemma scheduled_resetTimer: "(nextId T, 1000) \<in> set (pending (resetTimer T))"
  by (simp add: resetTimer_def setTimeout_def Let_def clearTimeout_def split: option.splits)

lemma one_timer_inFlight: "one_timer (T\<lparr>inFlight := k\<rparr>) = one_timer T"
  by (simp add: one_timer_def split: list.splits)

lemma one_timer_refreshLoop: "one_timer T \<Longrightarrow> one_timer (refreshLoop T)"
  by (simp add: one_timer_cases pending_refreshLoop)

lemma one_timer_resetTimer: "one_timer T \<Longrightarrow> one_timer (resetTimer T)"
  by (simp add: one_timer_cases pending_resetTimer ref_resetTimer)

lemma one_timer_request_done: "one_timer T \<Longrightarrow> one_timer (request_done T)"
  by (simp add: request_done_def one_timer_resetTimer one_timer_inFlight)

lemma one_timer_fired:
  assumes "one_timer T"
  shows "one_timer (T\<lparr>pending := filter (\<lambda>p. fst p \<noteq> i) (pending T)\<rparr>)"
  using assms by (auto simp: one_timer_def split: list.splits if_splits)

lemma one_timer_step:
  assumes "one_timer T"
  shows "one_timer (step T e)"
proof (cases e)
  case Mount
  with assms show ?thesis by (simp add: one_timer_refreshLoop)
next
  case (TimerFires i)
  with assms show ?thesis
    by (simp add: one_timer_refreshLoop one_timer_fired)
next
  case FetchCompletes
  with assms show ?thesis
    by (simp add: one_timer_request_done)
next
  case Reenter
  with assms show ?thesis by (simp add: one_timer_refreshLoop)
next
  case Unmount
  with assms show ?thesis
    by (simp add: one_timer_cases clear_own_timer)
qed

lemma one_timer_run: "one_timer (run evs)"
proof (induction evs rule: rev_induct)
  case Nil
  show ?case by (simp add: run_def initial_scheduler_def one_timer_def)
next
  case (snoc e evs)
  then show ?case
    using one_timer_step [of "run evs" e] by (simp add: run_def)
qed

text \<open>
  Requests in flight and pending timers, counted together, are the polling loops under
  way. A timer that fires turns into a request, a request that completes into a timer;
  only an entry into \<open>refreshLoop\<close> from outside can add one.
\<close>

lemma loops_step:
  assumes "one_timer T"
  shows "inFlight (step T e) + length (pending (step T e))
           \<le> inFlight T + length (pending T) + (if is_entry e then 1 else 0)"
proof (cases e)
  case Mount
  with assms show ?thesis
    by (simp add: pending_refreshLoop) (simp add: refreshLoop_def Let_def clearTimeout_def
        split: option.split)
next
  case (TimerFires i)
  show ?thesis
  proof (cases "i \<in> fst ` set (pending T)")
    case True
    then have "pending T \<noteq> []" by auto
    then have len: "1 \<le> length (pending T)"
      by (cases "pending T") simp_all
    have "pending (refreshLoop (T\<lparr>pending := filter (\<lambda>p. fst p \<noteq> i) (pending T)\<rparr>)) = []"
      using assms by (intro pending_refreshLoop one_timer_fired)
    moreover have
      "inFlight (refreshLoop (T\<lparr>pending := filter (\<lambda>p. fst p \<noteq> i) (pending T)\<rparr>))
         = Suc (inFlight T)"
      by (simp add: refreshLoop_def Let_def clearTimeout_def split: option.split)
    ultimately show ?thesis
      using TimerFires True len by simp
  next
    case False
    with TimerFires show ?thesis by simp
  qed
next
  case FetchCompletes
  have "pending (request_done T) = [(nextId T, 1000)]"
    using pending_resetTimer [of "T\<lparr>inFlight := inFlight T - 1\<rparr>"] assms
    by (simp add: request_done_def one_timer_inFlight)
  moreover have "inFlight (request_done T) = inFlight T - 1"
    by (simp add: request_done_def resetTimer_def setTimeout_def Let_def clearTimeout_def
        split: option.split)
  ultimately show ?thesis
    using FetchCompletes by simp
next
  case Reenter
  with assms show ?thesis
    by (simp add: pending_refreshLoop) (simp add: refreshLoop_def Let_def clearTimeout_def
        split: option.split)
next
  case Unmount
  with assms show ?thesis
    by (simp add: clear_own_timer) (simp add: clearTimeout_def split: option.split)
qed

lemma loops_run:
  "inFlight (run evs) + length (pending (run evs)) \<le> length (filter is_entry evs)"
proof (induction evs rule: rev_induct)
  case Nil
  show ?case by (simp add: run_def initial_scheduler_def)
next
  case (snoc e evs)
  have "run (evs @ [e]) = step (run evs) e"
    by (simp add: run_def)
  with snoc loops_step [OF one_timer_run, of evs e] show ?case
    by (simp split: if_splits)
qed

text \<open>
  C8. After any sequence of events of the view's life (mount, timers firing, requests
  completing, further entries into \<open>refreshLoop\<close>, unmount) at most one timer is
  pending; the \<open>clearTimeout\<close> that opens both \<open>refreshLoop\<close> and \<open>resetTimer\<close> leaves
  none pending, so that after \<open>resetTimer\<close> the one pending timer is the new one. The
  polling loops under way (requests in flight plus pending timers) are never more than
  the entries into \<open>refreshLoop\<close> from outside the loop; in the component, where the
  mount effect is the only such entry, there is at most one: a request in flight or a
  pending timer, never both and never two.
\<close>

theorem at_most_one_pending_timer:
  "length (pending (run evs)) \<le> 1
   \<and> pending (clearTimeout (timeoutIdRef (run evs)) (run evs)) = []
   \<and> pending (refreshLoop (run evs)) = []
   \<and> pending (resetTimer (run evs)) = [(nextId (run evs), 1000)]
   \<and> inFlight (run evs) + length (pending (run evs)) \<le> length (filter is_entry evs)
   \<and> (filter is_entry evs = [] \<longrightarrow>
        inFlight (run (Mount # evs)) + length (pending (run (Mount # evs))) \<le> 1)"
proof -
  have inv: "one_timer (run evs)"
    by (rule one_timer_run)
  then have "length (pending (run evs)) \<le> 1"
    by (auto simp: one_timer_cases)
  moreover have "inFlight (run (Mount # evs)) + length (pending (run (Mount # evs))) \<le> 1"
    if "filter is_entry evs = []"
    using loops_run [of "Mount # evs"] that by simp
  ultimately show ?thesis
    using inv loops_run [of evs]
    by (simp add: clear_own_timer pending_refreshLoop pending_resetTimer)
qed

text \<open>
  The component's own course: the mount issues a request; it completes and sets timer
  1; the timer fires and issues the next request; that one completes and sets timer 2.
\<close>

theorem at_most_one_pending_timer_witness:
  "filter is_entry [FetchCompletes, TimerFires 1, FetchCompletes] = []
   \<and> pending (run [Mount, FetchCompletes]) = [(1, 1000)]
   \<and> inFlight (run [Mount, FetchCompletes]) = 0
   \<and> pending (run [Mount, FetchCompletes, TimerFires 1]) = []
   \<and> inFlight (run [Mount, FetchCompletes, TimerFires 1]) = 1
   \<and> pending (run [Mount, FetchCompletes, TimerFires 1, FetchCompletes]) = [(2, 1000)]
   \<and> inFlight (run [Mount, FetchCompletes, TimerFires 1, FetchCompletes])
       + length (pending (run [Mount, FetchCompletes, TimerFires 1, FetchCompletes])) \<le> 1"
proof -
  have a: "run [Mount, FetchCompletes] =
      \<lparr>timeoutIdRef = Some 1, pending = [(1, 1000)], nextId = 2, inFlight = 0\<rparr>"
    by (simp add: run_def initial_scheduler_def refreshLoop_def request_done_def resetTimer_def
        clearTimeout_def setTimeout_def Let_def)
  have b: "run [Mount, FetchCompletes, TimerFires 1] =
      \<lparr>timeoutIdRef = Some 1, pending = [], nextId = 2, inFlight = 1\<rparr>"
    by (simp add: run_def initial_scheduler_def refreshLoop_def request_done_def resetTimer_def
        clearTimeout_def setTimeout_def Let_def)
  have c: "run [Mount, FetchCompletes, TimerFires 1, FetchCompletes] =
      \<lparr>timeoutIdRef = Some 2, pending = [(2, 1000)], nextId = 3, inFlight = 0\<rparr>"
    by (simp add: run_def initial_scheduler_def refreshLoop_def request_done_def resetTimer_def
        clearTimeout_def setTimeout_def Let_def)
  have own: "filter is_entry [FetchCompletes, TimerFires 1, FetchCompletes] = []"
    by simp
  from a b c own at_most_one_pending_timer [of "[FetchCompletes, TimerFires 1, FetchCompletes]"]
  show ?thesis by simp
qed

section \<open>Fetch failure\<close>

lemma fst_failed_round: "fst (failed_round v) = fst v"
  by (simp add: failed_round_def fst_fetch_fail fst_fire_timer)

lemma fst_failed_rounds: "fst ((failed_round ^^ n) v) = fst v"
  by (induction n) (simp_all add: fst_failed_round)

lemma fetch_fail_schedules:
  "timeoutIdRef (snd (fetch_fail v)) = Some (nextId (snd v))
   \<and> (nextId (snd v), 1000) \<in> set (pending (snd (fetch_fail v)))"
  using ref_resetTimer [of "(snd v)\<lparr>inFlight := inFlight (snd v) - 1\<rparr>"]
    scheduled_resetTimer [of "(snd v)\<lparr>inFlight := inFlight (snd v) - 1\<rparr>"]
  by (simp add: fetch_fail_def request_done_def)

text \<open>
  C5. The first part of the claim holds: the failure callback leaves the component
  state (all series, \<open>lastRefresh\<close> and the three previous counters) as it was and
  sets a timer of 1000 ms, which \<open>timeoutIdRef\<close> then names; the same after any number
  of failing rounds; and the successful poll that follows gives the state it would have
  given without the failures. The last part does not hold of the component: poll 1 at
  time 0 reads 1000 rows and stays recorded through the failed poll 2, but poll 3 at
  2000 ms, with 1500 rows, computes no rate against it (the claim has 250 rows per
  second): the row series stays empty.
\<close>

theorem fetch_failure_then_success:
  "fst (fetch_fail v) = fst v
   \<and> timeoutIdRef (snd (fetch_fail v)) = Some (nextId (snd v))
   \<and> (nextId (snd v), 1000) \<in> set (pending (snd (fetch_fail v)))
   \<and> fst ((failed_round ^^ n) v) = fst v
   \<and> (\<exists>i. timeoutIdRef (snd ((failed_round ^^ Suc n) v)) = Some i
          \<and> (i, 1000) \<in> set (pending (snd ((failed_round ^^ Suc n) v))))
   \<and> fst (fetch_success L \<alpha> first_render_closure (fetch_fail v) cs now now')
       = fst (fetch_success L \<alpha> first_render_closure v cs now now')
   \<and> fst (fetch_success L \<alpha> first_render_closure ((failed_round ^^ n) v) cs now now')
       = fst (fetch_success L \<alpha> first_render_closure v cs now now')
   \<and> lastRefresh (fst (polls 100 (1 / 5) [Succeeds poll1_snapshot 0 0, Fails])) = Some 0
   \<and> lastInputRows (fst (polls 100 (1 / 5) [Succeeds poll1_snapshot 0 0, Fails]))
       = Number (Fin 1000)
   \<and> rowInputRate
        (fst (polls 100 (1 / 5)
           [Succeeds poll1_snapshot 0 0, Fails, Succeeds poll2_snapshot 2000 2000])) = []"
proof -
  have "\<exists>i. timeoutIdRef (snd ((failed_round ^^ Suc n) v)) = Some i
          \<and> (i, 1000) \<in> set (pending (snd ((failed_round ^^ Suc n) v)))"
    using fetch_fail_schedules [of "fire_timer ((failed_round ^^ n) v)"]
    by (simp add: failed_round_def)
  moreover have "rowInputRate
        (fst (polls 100 (1 / 5)
           [Succeeds poll1_snapshot 0 0, Fails, Succeeds poll2_snapshot 2000 2000])) = []"
    using polls_rates_empty
      [of 100 "1 / 5" "[Succeeds poll1_snapshot 0 0, Fails, Succeeds poll2_snapshot 2000 2000]"]
    by simp
  ultimately show ?thesis
    using fetch_fail_schedules [of v]
    by (simp add: fst_fetch_fail fst_failed_rounds fetch_success_def after_failed_poll)
qed

section \<open>The render throttle\<close>

text \<open>
  C7. The effect draws exactly when \<open>lastRender\<close> is \<open>null\<close> or at least 1000 ms lie
  between it and the time read; when it draws it records the time read for
  \<open>renderTimestamp\<close>, otherwise \<open>lastRender\<close> stays. From an unset \<open>lastRender\<close>: a run at
  \<open>t0\<close> draws, a run 200 ms later does not and changes nothing, a run 1000 ms after the
  first draws again.
\<close>

theorem render_throttle:
  "fst (update_effect s now now')
     = (lastRender s = None \<or> (\<exists>t. lastRender s = Some t \<and> 1000 \<le> now - t))
   \<and> lastRender (snd (update_effect s now now'))
     = (if fst (update_effect s now now') then Some now' else lastRender s)
   \<and> (lastRender s = None \<longrightarrow>
        fst (update_effect s t0 t0)
        \<and> lastRender (snd (update_effect s t0 t0)) = Some t0
        \<and> \<not> fst (update_effect (snd (update_effect s t0 t0)) (t0 + 200) (t0 + 200))
        \<and> snd (update_effect (snd (update_effect s t0 t0)) (t0 + 200) (t0 + 200))
            = snd (update_effect s t0 t0)
        \<and> fst (update_effect
                 (snd (update_effect (snd (update_effect s t0 t0)) (t0 + 200) (t0 + 200)))
                 (t0 + 1000) (t0 + 1000)))"
  by (cases "lastRender s") (simp_all add: update_effect_def)

theorem render_throttle_witness:
  "lastRender initial_state = None
   \<and> fst (update_effect initial_state 0 0)
   \<and> \<not> fst (update_effect (snd (update_effect initial_state 0 0)) 200 200)
   \<and> fst (update_effect
            (snd (update_effect (snd (update_effect initial_state 0 0)) 200 200)) 1000 1000)"
proof -
  have unset: "lastRender initial_state = None"
    by (simp add: initial_state_def)
  from render_throttle [of initial_state 0 0 0] unset show ?thesis
    by (simp add: update_effect_def)
qed

end
